theory Spec2Isabelle
  imports Main
begin

section \<open>Strings of the chat client\<close>

text \<open>
  A JavaScript string is a sequence of UTF-16 code units; \<open>length\<close>, \<open>endsWith\<close>,
  \<open>toLowerCase\<close> and the regular expressions of the client (none has the \<open>u\<close> flag)
  all count code units. A code unit is modelled as a natural number (in the program it is
  below 65536), a string as a list of them. \<open>js\<close> turns an ASCII literal of the source into
  such a list.
\<close>

type_synonym jsstring = "nat list"

definition js :: "string \<Rightarrow> jsstring" where
  "js s = map of_char s"

text \<open>
  \<open>String.prototype.toLowerCase\<close>. Only the mapping of \<open>A\<close>..\<open>Z\<close> is modelled; every other
  code unit is kept. The one use of the result is the test whether it ends with
  \<open>.pdf\<close>, \<open>.doc\<close> or \<open>.docx\<close>, and no character outside \<open>A\<close>..\<open>Z\<close> lower-cases to a
  character of these three suffixes, so the test has the same result.
\<close>

definition toLowerCase :: "jsstring \<Rightarrow> jsstring" where
  "toLowerCase s = map (\<lambda>c. if 65 \<le> c \<and> c \<le> 90 then c + 32 else c) s"

text \<open>\<open>String.prototype.endsWith\<close>: the last \<open>length e\<close> code units of \<open>s\<close> are \<open>e\<close>.\<close>

definition endsWith :: "jsstring \<Rightarrow> jsstring \<Rightarrow> bool" where
  "endsWith s e = (length e \<le> length s \<and> drop (length s - length e) s = e)"

text \<open>
  Containment, used to state what an output contains: \<open>e\<close> occurs in \<open>s\<close> as a contiguous
  run of code units.
\<close>

fun includes_js :: "jsstring \<Rightarrow> jsstring \<Rightarrow> bool" where
  "includes_js [] e = (e = [])"
| "includes_js (c # cs) e = (take (length e) (c # cs) = e \<or> includes_js cs e)"

section \<open>Numbers printed with a fixed number of decimals\<close>

text \<open>The decimal digits of a natural number, most significant first.\<close>

fun digitsOf :: "nat \<Rightarrow> jsstring" where
  "digitsOf n = (if n < 10 then [48 + n] else digitsOf (n div 10) @ [48 + n mod 10])"

declare digitsOf.simps [simp del]

text \<open>
  \<open>Number.prototype.toFixed\<close> applied to a quotient \<open>num / den\<close>. Both uses in the client
  divide a byte count by \<open>1024 * 1024\<close>; a division of a double by a power of two is
  exact, so the number that \<open>toFixed\<close> receives is the rational \<open>num / den\<close> itself, and it
  is far below the bound \<open>10^21\<close> above which \<open>toFixed\<close> switches to exponent notation.
  Following ECMA-262: \<open>n\<close> is the integer for which \<open>n / 10^f\<close> is closest to the number,
  the larger one of two; its digits are padded with zeros to \<open>f + 1\<close> places and the point
  is put before the last \<open>f\<close> of them.
\<close>

definition toFixed :: "nat \<Rightarrow> nat \<Rightarrow> nat \<Rightarrow> jsstring" where
  "toFixed num den f =
     (let n = (2 * num * 10 ^ f + den) div (2 * den);
          m = digitsOf n
      in if f = 0 then m
         else
           (let m = (if length m \<le> f then replicate (f + 1 - length m) 48 @ m else m);
                k = length m
            in take (k - f) m @ [46] @ drop (k - f) m))"

section \<open>File validation (the document-upload client, \<open>unnamed/part_001\<close>)\<close>

text \<open>The fields of a browser \<open>File\<close> that \<open>validateFile\<close> reads: \<open>name\<close>, \<open>type\<close>, \<open>size\<close>.\<close>

record File =
  file_name :: jsstring
  file_type :: jsstring
  file_size :: nat

definition MAX_FILE_SIZE :: nat where
  "MAX_FILE_SIZE = 10 * 1024 * 1024"

definition ALLOWED_EXTENSIONS :: "jsstring list" where
  "ALLOWED_EXTENSIONS = [js ''.pdf'', js ''.doc'', js ''.docx'']"

definition ALLOWED_MIME_TYPES :: "jsstring list" where
  "ALLOWED_MIME_TYPES =
     [js ''application/pdf'',
      js ''application/msword'',
      js ''application/vnd.openxmlformats-officedocument.wordprocessingml.document'']"

text \<open>
  The extension test of \<open>validateFile\<close>:
  \<open>ALLOWED_EXTENSIONS.some(ext => fileName.endsWith(ext))\<close> on the lower-cased name.
\<close>

definition hasValidExtension :: "File \<Rightarrow> bool" where
  "hasValidExtension file =
     (let fileName = toLowerCase (file_name file)
      in list_ex (\<lambda>ext. endsWith fileName ext) ALLOWED_EXTENSIONS)"

text \<open>
  \<open>validateFile\<close> returns the error message of the first failing check, or \<open>null\<close> for a
  valid file: \<open>Some msg\<close> is the rejection with its message, \<open>None\<close> is \<open>null\<close>. The
  condition \<open>file.type && ...\<close> is false for the empty string. The calls of
  \<open>console.log\<close> do not change the result and are left out.
\<close>

definition validateFile :: "File \<Rightarrow> jsstring option" where
  "validateFile file =
     (if \<not> hasValidExtension file then
        Some (js ''Only PDF and DOC/DOCX files are allowed. You selected: '' @ file_name file)
      else if file_type file \<noteq> [] \<and> file_type file \<notin> set ALLOWED_MIME_TYPES then
        Some (js ''Invalid file type detected. Expected: PDF or DOC/DOCX, Got: '' @ file_type file)
      else if file_size file > MAX_FILE_SIZE then
        (let fileSizeMB = toFixed (file_size file) (1024 * 1024) 2;
             maxSizeMB = toFixed MAX_FILE_SIZE (1024 * 1024) 0
         in Some (js ''File size ('' @ fileSizeMB @ js ''MB) exceeds the maximum limit of ''
                  @ maxSizeMB @ js ''MB''))
      else None)"

section \<open>The regular expressions of \<open>formatText\<close>\<close>

text \<open>
  Character classes of ECMAScript regular expressions without the \<open>u\<close> flag: the line
  terminators (LF, CR, U+2028, U+2029), which \<open>.\<close> does not match and which delimit the
  lines of \<open>^\<close> and \<open>$\<close> under the \<open>m\<close> flag; \<open>\s\<close> (white space and line terminators);
  \<open>\d\<close>.
\<close>

definition isLineTerminator :: "nat \<Rightarrow> bool" where
  "isLineTerminator c = (c = 10 \<or> c = 13 \<or> c = 8232 \<or> c = 8233)"

definition isWhiteSpace :: "nat \<Rightarrow> bool" where
  "isWhiteSpace c =
     (c = 9 \<or> c = 10 \<or> c = 11 \<or> c = 12 \<or> c = 13 \<or> c = 32 \<or> c = 160 \<or> c = 5760
      \<or> (8192 \<le> c \<and> c \<le> 8202) \<or> c = 8232 \<or> c = 8233 \<or> c = 8239 \<or> c = 8287
      \<or> c = 12288 \<or> c = 65279)"

definition isDigit :: "nat \<Rightarrow> bool" where
  "isDigit c = (48 \<le> c \<and> c \<le> 57)"

text \<open>
  A regular expression is modelled by what it matches at one position of the input: given
  the code unit before the position (\<open>None\<close> at the start of the input) and the input from
  the position on, the result is \<open>None\<close> when there is no match at this position, and
  otherwise the captured groups and the number of code units matched.
\<close>

type_synonym regex = "nat option \<Rightarrow> jsstring \<Rightarrow> (jsstring list \<times> nat) option"

text \<open>\<open>^\<close> with the \<open>m\<close> flag: the start of the input, or just after a line terminator.\<close>

definition atLineStart :: "nat option \<Rightarrow> bool" where
  "atLineStart prev = (case prev of None \<Rightarrow> True | Some p \<Rightarrow> isLineTerminator p)"

text \<open>
  \<open>(.*?)\<close> followed by the literal \<open>d\<close>: the lazy quantifier takes the shortest run of
  code units other than line terminators after which \<open>d\<close> follows.
\<close>

fun lazyUntil :: "jsstring \<Rightarrow> jsstring \<Rightarrow> jsstring option" where
  "lazyUntil d [] = (if d = [] then Some [] else None)"
| "lazyUntil d (c # cs) =
     (if take (length d) (c # cs) = d then Some []
      else if isLineTerminator c then None
      else map_option ((#) c) (lazyUntil d cs))"

text \<open>\<open>/D(.*?)D/\<close> for a literal delimiter \<open>D\<close>.\<close>

definition regex_delimited :: "jsstring \<Rightarrow> regex" where
  "regex_delimited d prev s =
     (if take (length d) s = d then
        (case lazyUntil d (drop (length d) s) of
           None \<Rightarrow> None
         | Some g \<Rightarrow> Some ([g], length d + length g + length d))
      else None)"

text \<open>\<open>/\*\*(.*?)\*\*/g\<close> and \<open>/\*(.*?)\*/g\<close>.\<close>

definition regex_bold :: regex where
  "regex_bold = regex_delimited (js ''**'')"

definition regex_italic :: regex where
  "regex_italic = regex_delimited (js ''*'')"

text \<open>
  \<open>(.*$)\<close> with the \<open>m\<close> flag: the greedy \<open>.*\<close> runs to the next line terminator or to
  the end of the input, where \<open>$\<close> holds.
\<close>

definition restOfLine :: "jsstring \<Rightarrow> jsstring" where
  "restOfLine s = takeWhile (\<lambda>c. \<not> isLineTerminator c) s"

text \<open>
  \<open>\s+(.*$)\<close>: the greedy \<open>\s+\<close> takes the whole run of white space (line terminators
  included) and never gives any of it back, since \<open>(.*$)\<close> matches at every position.
  The result is the white space and the captured rest of the line.
\<close>

definition spacesThenLine :: "jsstring \<Rightarrow> (jsstring \<times> jsstring) option" where
  "spacesThenLine s =
     (let ws = takeWhile isWhiteSpace s
      in if ws = [] then None else Some (ws, restOfLine (dropWhile isWhiteSpace s)))"

text \<open>\<open>/^(\d+\.\s+)(.*$)/gm\<close>.\<close>

definition regex_numbered :: regex where
  "regex_numbered prev s =
     (let ds = takeWhile isDigit s;
          r = dropWhile isDigit s
      in if atLineStart prev \<and> ds \<noteq> [] \<and> take 1 r = [46] then
           (case spacesThenLine (drop 1 r) of
              None \<Rightarrow> None
            | Some (ws, body) \<Rightarrow>
                Some ([ds @ [46] @ ws, body], length ds + 1 + length ws + length body))
         else None)"

text \<open>\<open>/^[\*\-]\s+(.*$)/gm\<close>.\<close>

definition regex_bullet :: regex where
  "regex_bullet prev s =
     (case s of
        [] \<Rightarrow> None
      | c # cs \<Rightarrow>
          if atLineStart prev \<and> (c = 42 \<or> c = 45) then
            (case spacesThenLine cs of
               None \<Rightarrow> None
             | Some (ws, body) \<Rightarrow> Some ([body], 1 + length ws + length body))
          else None)"

text \<open>\<open>/^H\s+(.*$)/gm\<close> for a literal \<open>H\<close>: \<open>###\<close>, \<open>##\<close> or \<open>#\<close>.\<close>

definition regex_heading :: "jsstring \<Rightarrow> regex" where
  "regex_heading h prev s =
     (if atLineStart prev \<and> take (length h) s = h then
        (case spacesThenLine (drop (length h) s) of
           None \<Rightarrow> None
         | Some (ws, body) \<Rightarrow> Some ([body], length h + length ws + length body))
      else None)"

text \<open>\<open>/\n/g\<close>.\<close>

definition regex_newline :: regex where
  "regex_newline prev s = (if take 1 s = [10] then Some ([], 1) else None)"

section \<open>\<open>String.prototype.replace\<close> with a global regular expression\<close>

text \<open>
  The replacement text for one match: \<open>$n\<close> with a digit \<open>1\<close>..\<open>9\<close> that numbers an
  existing group stands for that group, everything else is literal. (The templates of the
  client contain no other \<open>$\<close> form, and each \<open>$n\<close> in them is followed by \<open><\<close>.)
\<close>

fun getSubstitution :: "jsstring list \<Rightarrow> jsstring \<Rightarrow> jsstring" where
  "getSubstitution caps (a # b # cs) =
     (if a = 36 \<and> 49 \<le> b \<and> b \<le> 57 \<and> b - 48 \<le> length caps
      then caps ! (b - 49) @ getSubstitution caps cs
      else a # getSubstitution caps (b # cs))"
| "getSubstitution caps cs = cs"

text \<open>
  The scan of \<open>replace\<close> under the \<open>g\<close> flag, from left to right. \<open>k\<close> counts the code
  units of the last match that are still to be passed over; with \<open>k = 0\<close> the expression
  is tried at the current position. A match is replaced by its substitution and the scan
  goes on behind it; after an empty match the scan moves on by one code unit, which is
  kept. Where nothing matches the code unit is kept.
\<close>

fun replaceFrom :: "regex \<Rightarrow> jsstring \<Rightarrow> nat \<Rightarrow> nat option \<Rightarrow> jsstring \<Rightarrow> jsstring" where
  "replaceFrom re tpl k prev [] =
     (if k = 0 then
        (case re prev [] of None \<Rightarrow> [] | Some (caps, n) \<Rightarrow> getSubstitution caps tpl)
      else [])"
| "replaceFrom re tpl (Suc k) prev (c # cs) = replaceFrom re tpl k (Some c) cs"
| "replaceFrom re tpl 0 prev (c # cs) =
     (case re prev (c # cs) of
        None \<Rightarrow> c # replaceFrom re tpl 0 (Some c) cs
      | Some (caps, n) \<Rightarrow>
          if n = 0 then getSubstitution caps tpl @ c # replaceFrom re tpl 0 (Some c) cs
          else getSubstitution caps tpl @ replaceFrom re tpl (n - 1) (Some c) cs)"

definition replace :: "regex \<Rightarrow> jsstring \<Rightarrow> jsstring \<Rightarrow> jsstring" where
  "replace re tpl text = replaceFrom re tpl 0 None text"

section \<open>\<open>formatText\<close>, in its three variants\<close>

text \<open>The bullet glyph U+2022 of the bullet templates.\<close>

definition BULLET :: jsstring where
  "BULLET = [8226]"

text \<open>
  \<open>formatText\<close> of \<open>src/App.jsx\<close>: the templates carry inline styles, the second heading
  expression is \<open>/^##\s+(.*$)/gm\<close>. The argument is a string; \<open>!text\<close> is true for the
  empty one, which is returned as it is. Each statement \<open>text = text.replace(...)\<close> is one
  binding of the \<open>let\<close>.
\<close>

definition formatText :: "jsstring \<Rightarrow> jsstring" where
  \<open>formatText text0 =
     (if text0 = [] then text0
      else
        let text = replace regex_bold (js ''<strong>$1</strong>'') text0;
            text = replace regex_italic (js ''<em>$1</em>'') text;
            text = replace regex_numbered (js ''<div style="margin: 8px 0; padding-left: 12px;"><span style="font-weight: 600; color: #007bff; margin-right: 8px;">$1</span>$2</div>'') text;
            text = replace regex_bullet (js ''<div style="margin: 6px 0; padding-left: 12px;">'' @ BULLET @ js '' $1</div>'') text;
            text = replace (regex_heading (js ''###'')) (js ''<h3 style="font-size: 18px; font-weight: 600; color: #34495e; margin: 12px 0 6px 0; line-height: 1.3;">$1</h3>'') text;
            text = replace (regex_heading (js ''##'')) (js ''<h2 style="font-size: 20px; font-weight: 600; color: #2c3e50; margin: 16px 0 8px 0; line-height: 1.3;">$1</h2>'') text;
            text = replace regex_newline (js ''<br>'') text
        in text)\<close>

text \<open>
  \<open>formatText\<close> of the document-upload client (\<open>unnamed/part_001\<close>, the file that also
  holds \<open>validateFile\<close>): the templates carry class names, the second heading expression is
  \<open>/^##\s+(.*$)/gm\<close>.
\<close>

definition formatText_upload :: "jsstring \<Rightarrow> jsstring" where
  \<open>formatText_upload text0 =
     (if text0 = [] then text0
      else
        let text = replace regex_bold (js ''<strong>$1</strong>'') text0;
            text = replace regex_italic (js ''<em>$1</em>'') text;
            text = replace regex_numbered (js ''<div class="list-item"><span class="list-number">$1</span>$2</div>'') text;
            text = replace regex_bullet (js ''<div class="bullet-item">'' @ BULLET @ js '' $1</div>'') text;
            text = replace (regex_heading (js ''###'')) (js ''<h3 class="chat-h3">$1</h3>'') text;
            text = replace (regex_heading (js ''##'')) (js ''<h2 class="chat-h2">$1</h2>'') text;
            text = replace regex_newline (js ''<br>'') text
        in text)\<close>

text \<open>
  \<open>formatText\<close> of the plain chat client (\<open>unnamed/part_000\<close>): as the previous one, but
  the second heading expression is \<open>/^#\s+(.*$)/gm\<close>.
\<close>

definition formatText_plain :: "jsstring \<Rightarrow> jsstring" where
  \<open>formatText_plain text0 =
     (if text0 = [] then text0
      else
        let text = replace regex_bold (js ''<strong>$1</strong>'') text0;
            text = replace regex_italic (js ''<em>$1</em>'') text;
            text = replace regex_numbered (js ''<div class="list-item"><span class="list-number">$1</span>$2</div>'') text;
            text = replace regex_bullet (js ''<div class="bullet-item">'' @ BULLET @ js '' $1</div>'') text;
            text = replace (regex_heading (js ''###'')) (js ''<h3 class="chat-h3">$1</h3>'') text;
            text = replace (regex_heading (js ''#'')) (js ''<h2 class="chat-h2">$1</h2>'') text;
            text = replace regex_newline (js ''<br>'') text
        in text)\<close>

section \<open>Asterisks without a partner\<close>

text \<open>
  An asterisk has a partner when another asterisk follows it on the same line, that is
  before the next line terminator. \<open>loneAsterisks\<close> holds for a text in which no asterisk
  has one.
\<close>

fun loneAsterisks :: "jsstring \<Rightarrow> bool" where
  "loneAsterisks [] = True"
| "loneAsterisks (c # cs) = ((c = 42 \<longrightarrow> 42 \<notin> set (restOfLine cs)) \<and> loneAsterisks cs)"

section \<open>Texts that end a line cleanly\<close>


section \<open>Evaluation and helper lemmas\<close>

lemma digitsOf_numeral:
  "digitsOf (numeral k) =
     (if (numeral k :: nat) < 10 then [48 + numeral k]
      else digitsOf (numeral k div 10) @ [48 + numeral k mod 10])"
  by (rule digitsOf.simps)

lemma digitsOf_small: "digitsOf 0 = [48]" "digitsOf (Suc 0) = [49]" "digitsOf 1 = [49]"
  by (simp_all add: digitsOf.simps)

lemma digitsOf_digit: "n < 10 \<Longrightarrow> digitsOf n = [48 + n]"
  by (simp add: digitsOf.simps)

lemmas digitsOf_eval = digitsOf_small digitsOf_numeral

lemmas validate_eval = validateFile_def hasValidExtension_def ALLOWED_EXTENSIONS_def
  ALLOWED_MIME_TYPES_def MAX_FILE_SIZE_def js_def toLowerCase_def endsWith_def toFixed_def
  Let_def digitsOf_eval

text \<open>The digits denote the number: reading them back in base ten gives \<open>n\<close>.\<close>

lemma digitsOf_value: "foldl (\<lambda>acc d. 10 * acc + (d - 48)) 0 (digitsOf n) = n"
proof (induction n rule: digitsOf.induct)
  case (1 n)
  show ?case
  proof (cases "n < 10")
    case True
    then show ?thesis by (simp add: digitsOf.simps)
  next
    case False
    with 1 have "foldl (\<lambda>acc d. 10 * acc + (d - 48)) 0 (digitsOf (n div 10)) = n div 10"
      by simp
    with False show ?thesis
      by (subst digitsOf.simps) simp
  qed
qed

lemma digitsOf_nonempty: "digitsOf n \<noteq> []"
  by (subst digitsOf.simps) simp

lemma div_div_hundred: "(n::nat) div 10 div 10 = n div 100"
  by (simp add: div_mult2_eq [symmetric])

lemma div_mod_hundred: "(n::nat) div 10 mod 10 = n mod 100 div 10"
proof -
  have "n mod 100 = n mod (10 * 10)" by simp
  also have "\<dots> = 10 * (n div 10 mod 10) + n mod 10" by (rule mod_mult2_eq)
  finally have "n mod 100 div 10 = (10 * (n div 10 mod 10) + n mod 10) div 10" by simp
  also have "\<dots> = n div 10 mod 10" by simp
  finally show ?thesis by simp
qed

text \<open>With two decimals the point stands between the hundreds and the last two digits.\<close>

lemma toFixed_two:
  "toFixed num den 2 =
     (let n = (2 * num * 10 ^ 2 + den) div (2 * den)
      in digitsOf (n div 100) @ [46] @ digitsOf (n mod 100 div 10) @ digitsOf (n mod 10))"
proof -
  define n where "n = (2 * num * 10 ^ 2 + den) div (2 * den)"
  have tens: "digitsOf (n mod 100 div 10) = [48 + n mod 100 div 10]"
    by (rule digitsOf_digit) (simp add: less_mult_imp_div_less)
  have ones: "digitsOf (n mod 10) = [48 + n mod 10]"
    by (rule digitsOf_digit) simp
  have split:
    "(let m = digitsOf n;
          m = (if length m \<le> 2 then replicate (2 + 1 - length m) 48 @ m else m);
          k = length m
      in take (k - 2) m @ [46] @ drop (k - 2) m)
     = digitsOf (n div 100) @ [46] @ [48 + n mod 100 div 10] @ [48 + n mod 10]"
  proof -
    consider "n < 10" | "10 \<le> n" "n < 100" | "100 \<le> n" by linarith
    then show ?thesis
    proof cases
      case 1
      then have "digitsOf n = [48 + n]" "n div 100 = 0" "n mod 100 = n" "n div 10 = 0"
        by (simp_all add: digitsOf.simps)
      then show ?thesis using 1 by (simp add: digitsOf_small)
    next
      case 2
      then have d: "digitsOf n = [48 + n div 10, 48 + n mod 10]"
        by (simp add: digitsOf.simps [of n] digitsOf_digit)
      from 2 have "n div 100 = 0" "n mod 100 = n" by simp_all
      with d show ?thesis by (simp add: digitsOf_small)
    next
      case 3
      then have big: "\<not> n < 10" "\<not> n div 10 < 10" by simp_all
      have hundreds: "n div 10 div 10 = n div 100"
        by (rule div_div_hundred)
      have d1: "digitsOf n = digitsOf (n div 10) @ [48 + n mod 10]"
        using big(1) by (subst digitsOf.simps) simp
      have d2: "digitsOf (n div 10) = digitsOf (n div 10 div 10) @ [48 + n div 10 mod 10]"
        using big(2) by (subst digitsOf.simps) simp
      have d: "digitsOf n = digitsOf (n div 100) @ [48 + n div 10 mod 10, 48 + n mod 10]"
        unfolding d1 d2 hundreds by simp
      have "n div 10 mod 10 = n mod 100 div 10"
        by (rule div_mod_hundred)
      with d show ?thesis by (simp add: digitsOf_nonempty Let_def)
    qed
  qed
  show ?thesis
    unfolding toFixed_def n_def [symmetric] Let_def tens ones
    using split unfolding Let_def by simp
qed

text \<open>The integer chosen by \<open>toFixed\<close> is the nearest one, the larger of two.\<close>

lemma nearest_integer:
  fixes num den :: nat
  assumes "0 < den"
  defines "n \<equiv> (2 * num + den) div (2 * den)"
  shows "2 * den * n \<le> 2 * num + den" and "2 * num + den < 2 * den * (n + 1)"
proof -
  have pos: "0 < 2 * den" using assms(1) by simp
  show "2 * den * n \<le> 2 * num + den"
    unfolding n_def by simp
  have "(2 * num + den) mod (2 * den) < 2 * den"
    using pos by (rule mod_less_divisor)
  moreover have "2 * num + den = 2 * den * n + (2 * num + den) mod (2 * den)"
    unfolding n_def by simp
  ultimately show "2 * num + den < 2 * den * (n + 1)"
    by simp
qed

lemma toLowerCase_append: "toLowerCase (a @ b) = toLowerCase a @ toLowerCase b"
  by (simp add: toLowerCase_def)

lemma endsWith_append: "endsWith (p @ e) e"
  by (simp add: endsWith_def)

lemma toLowerCase_cased:
  "list_all2 (\<lambda>c e. c = e \<or> (65 \<le> c \<and> c \<le> 90 \<and> c + 32 = e)) suf ext \<Longrightarrow>
   \<forall>e \<in> set ext. \<not> (65 \<le> e \<and> e \<le> 90) \<Longrightarrow> toLowerCase suf = ext"
  by (induction rule: list_all2_induct) (auto simp: toLowerCase_def)

lemma extensions_lower_case:
  "ext \<in> set ALLOWED_EXTENSIONS \<Longrightarrow> \<forall>e \<in> set ext. \<not> (65 \<le> e \<and> e \<le> 90)"
  by (auto simp: ALLOWED_EXTENSIONS_def js_def)

lemma hasValidExtension_iff:
  "hasValidExtension f \<longleftrightarrow>
     (\<exists>ext \<in> set ALLOWED_EXTENSIONS. endsWith (toLowerCase (file_name f)) ext)"
  by (simp add: hasValidExtension_def list_ex_iff)

lemma replaceFrom_skip:
  "0 < k \<Longrightarrow> replaceFrom re tpl k prev (c # cs) = replaceFrom re tpl (k - 1) (Some c) cs"
  by (cases k) simp_all

lemmas regex_defs = regex_bold_def regex_italic_def regex_delimited_def regex_numbered_def
  regex_bullet_def regex_heading_def regex_newline_def spacesThenLine_def restOfLine_def
  atLineStart_def isLineTerminator_def isWhiteSpace_def isDigit_def

lemmas format_eval = replace_def replaceFrom_skip regex_defs js_def BULLET_def Let_def

text \<open>Where the expression matches at no position, \<open>replace\<close> returns its input.\<close>

lemma replaceFrom_no_match:
  assumes none: "\<And>prev s. P s \<Longrightarrow> re prev s = None"
    and step: "\<And>c cs. P (c # cs) \<Longrightarrow> P cs"
  shows "P s \<Longrightarrow> replaceFrom re tpl 0 prev s = s"
proof (induction s arbitrary: prev)
  case Nil
  then show ?case by (simp add: none)
next
  case (Cons c cs)
  from Cons.prems have "re prev (c # cs) = None" by (rule none)
  moreover from Cons.prems have "P cs" by (rule step)
  ultimately show ?case by (simp add: Cons.IH)
qed

lemma lazyUntil_no_asterisk:
  "42 \<notin> set (restOfLine s) \<Longrightarrow> lazyUntil [42] s = None"
  by (induction s) (auto simp: restOfLine_def isLineTerminator_def)

lemma regex_italic_lone: "loneAsterisks s \<Longrightarrow> regex_italic prev s = None"
  by (cases s) (auto simp: regex_italic_def regex_delimited_def js_def lazyUntil_no_asterisk)

lemma regex_bold_lone: "loneAsterisks s \<Longrightarrow> regex_bold prev s = None"
proof (cases s)
  case Nil
  then show ?thesis by (simp add: regex_bold_def regex_delimited_def js_def)
next
  case (Cons c cs)
  assume lone: "loneAsterisks s"
  show ?thesis
  proof (cases "c = 42 \<and> take 1 cs = [42]")
    case True
    then obtain r where "cs = 42 # r" by (cases cs) auto
    with True lone Cons have False
      by (simp add: restOfLine_def isLineTerminator_def)
    then show ?thesis ..
  next
    case False
    then have "take 2 (c # cs) \<noteq> [42, 42]"
      by (cases cs) auto
    with Cons show ?thesis
      by (auto simp: regex_bold_def regex_delimited_def js_def)
  qed
qed

lemma loneAsterisks_tail: "loneAsterisks (c # cs) \<Longrightarrow> loneAsterisks cs"
  by simp

lemma replace_bold_lone: "loneAsterisks s \<Longrightarrow> replace regex_bold tpl s = s"
  unfolding replace_def
  by (rule replaceFrom_no_match [where P = loneAsterisks]) (simp_all add: regex_bold_lone)

lemma replace_italic_lone: "loneAsterisks s \<Longrightarrow> replace regex_italic tpl s = s"
  unfolding replace_def
  by (rule replaceFrom_no_match [where P = loneAsterisks]) (simp_all add: regex_italic_lone)




lemma regex_bullet_anchored: "\<not> atLineStart prev \<Longrightarrow> regex_bullet prev s = None"
  by (simp add: regex_bullet_def split: list.splits)


text \<open>A match that reaches the end of the text leaves nothing behind it.\<close>

lemma replaceFrom_skip_all:
  assumes "\<And>p. re p [] = None"
  shows "replaceFrom re tpl (length s) prev s = []"
  by (induction s arbitrary: prev) (simp_all add: assms)













lemma asterisk_no_terminator: "isLineTerminator t \<Longrightarrow> t \<noteq> 42"
  by (auto simp: isLineTerminator_def)





























section \<open>The file validator\<close>

text \<open>
  Claim C1. \<open>validateFile\<close> applies the extension check, then the MIME-type check, then
  the size check, and the first failing check decides: a file without an allowed extension
  gets the extension message whatever its type and size are; with an allowed extension, a
  non-empty type outside the allowed ones gets the type message whatever the size is; with
  both checks passed, a size above \<open>MAX_FILE_SIZE\<close> gets the size message. The file is
  accepted (\<open>None\<close>) exactly when all three checks pass, and a size equal to
  \<open>MAX_FILE_SIZE\<close> passes the size check.
\<close>

theorem validate_check_order:
  "(\<not> hasValidExtension f \<longrightarrow>
      validateFile f =
        Some (js ''Only PDF and DOC/DOCX files are allowed. You selected: '' @ file_name f))
   \<and> (hasValidExtension f \<and> file_type f \<noteq> [] \<and> file_type f \<notin> set ALLOWED_MIME_TYPES \<longrightarrow>
      validateFile f =
        Some (js ''Invalid file type detected. Expected: PDF or DOC/DOCX, Got: '' @ file_type f))
   \<and> (hasValidExtension f \<and> (file_type f = [] \<or> file_type f \<in> set ALLOWED_MIME_TYPES)
        \<and> MAX_FILE_SIZE < file_size f \<longrightarrow>
      validateFile f =
        Some (js ''File size ('' @ toFixed (file_size f) (1024 * 1024) 2
              @ js ''MB) exceeds the maximum limit of ''
              @ toFixed MAX_FILE_SIZE (1024 * 1024) 0 @ js ''MB''))
   \<and> (validateFile f = None \<longleftrightarrow>
        hasValidExtension f \<and> (file_type f = [] \<or> file_type f \<in> set ALLOWED_MIME_TYPES)
        \<and> file_size f \<le> MAX_FILE_SIZE)
   \<and> (hasValidExtension f \<and> (file_type f = [] \<or> file_type f \<in> set ALLOWED_MIME_TYPES)
        \<and> file_size f = MAX_FILE_SIZE \<longrightarrow> validateFile f = None)"
  by (auto simp: validateFile_def Let_def)

theorem validate_check_order_witness:
  "validateFile \<lparr>file_name = js ''a.txt'', file_type = js ''text/plain'',
                  file_size = 11 * 1024 * 1024\<rparr> =
     Some (js ''Only PDF and DOC/DOCX files are allowed. You selected: a.txt'')
   \<and> validateFile \<lparr>file_name = js ''a.pdf'', file_type = js ''text/plain'',
                  file_size = 11 * 1024 * 1024\<rparr> =
     Some (js ''Invalid file type detected. Expected: PDF or DOC/DOCX, Got: text/plain'')
   \<and> validateFile \<lparr>file_name = js ''a.pdf'', file_type = js ''application/pdf'',
                  file_size = 11 * 1024 * 1024\<rparr> =
     Some (js ''File size (11.00MB) exceeds the maximum limit of 10MB'')
   \<and> validateFile \<lparr>file_name = js ''a.pdf'', file_type = js ''application/pdf'',
                  file_size = 10 * 1024 * 1024\<rparr> = None"
proof -
  let ?bad = "\<lparr>file_name = js ''a.txt'', file_type = js ''text/plain'',
                file_size = 11 * 1024 * 1024\<rparr>"
  let ?mime = "\<lparr>file_name = js ''a.pdf'', file_type = js ''text/plain'',
                 file_size = 11 * 1024 * 1024\<rparr>"
  let ?big = "\<lparr>file_name = js ''a.pdf'', file_type = js ''application/pdf'',
                file_size = 11 * 1024 * 1024\<rparr>"
  let ?edge = "\<lparr>file_name = js ''a.pdf'', file_type = js ''application/pdf'',
                 file_size = 10 * 1024 * 1024\<rparr>"
  have ext: "\<not> hasValidExtension ?bad" "hasValidExtension ?mime" "hasValidExtension ?big"
    "hasValidExtension ?edge"
    by (simp_all add: hasValidExtension_def ALLOWED_EXTENSIONS_def js_def toLowerCase_def
        endsWith_def)
  have mime: "file_type ?mime \<noteq> [] \<and> file_type ?mime \<notin> set ALLOWED_MIME_TYPES"
    "file_type ?big \<in> set ALLOWED_MIME_TYPES" "file_type ?edge \<in> set ALLOWED_MIME_TYPES"
    by (simp_all add: ALLOWED_MIME_TYPES_def js_def)
  have size: "MAX_FILE_SIZE < file_size ?big" "file_size ?edge = MAX_FILE_SIZE"
    by (simp_all add: MAX_FILE_SIZE_def)
  have "validateFile ?bad =
      Some (js ''Only PDF and DOC/DOCX files are allowed. You selected: '' @ file_name ?bad)"
    using validate_check_order [of ?bad] ext(1) by blast
  moreover have "validateFile ?mime =
      Some (js ''Invalid file type detected. Expected: PDF or DOC/DOCX, Got: '' @ file_type ?mime)"
    using validate_check_order [of ?mime] ext(2) mime(1) by blast
  moreover have "validateFile ?big =
      Some (js ''File size ('' @ toFixed (file_size ?big) (1024 * 1024) 2
              @ js ''MB) exceeds the maximum limit of ''
              @ toFixed MAX_FILE_SIZE (1024 * 1024) 0 @ js ''MB'')"
    using validate_check_order [of ?big] ext(3) mime(2) size(1) by blast
  moreover have "validateFile ?edge = None"
    using validate_check_order [of ?edge] ext(4) mime(3) size(2) by blast
  ultimately show ?thesis
    by (simp add: js_def toFixed_def MAX_FILE_SIZE_def digitsOf_eval)
qed

text \<open>
  Claim C3, as stated: the size message gives the file's size and the maximum, both with
  two decimals of a megabyte. It fails for the maximum: the message is built with
  \<open>toFixed(0)\<close> for \<open>MAX_FILE_SIZE\<close>, so for a file of 11 MB it ends in \<open>10MB\<close> and the
  two-decimal form \<open>10.00\<close> of the maximum occurs nowhere in it.
\<close>

theorem size_message_counterexample:
  "validateFile \<lparr>file_name = js ''a.pdf'', file_type = js ''application/pdf'',
                  file_size = 11 * 1024 * 1024\<rparr> =
     Some (js ''File size (11.00MB) exceeds the maximum limit of 10MB'')
   \<and> toFixed MAX_FILE_SIZE (1024 * 1024) 2 = js ''10.00''
   \<and> \<not> includes_js (js ''File size (11.00MB) exceeds the maximum limit of 10MB'')
                      (js ''10.00'')"
  by (simp add: validate_eval)

text \<open>
  Claim C3, amended. When the extension and MIME-type checks pass and the size is above
  \<open>MAX_FILE_SIZE\<close>, the message is \<open>File size (X.YZMB) exceeds the maximum limit of 10MB\<close>:
  the file's size in megabytes (bytes / 1048576) with two decimals, \<open>n = 100 * X.YZ\<close>
  being the integer nearest to a hundred times the size in megabytes (the larger of two
  nearest), and the maximum as whole megabytes, with no decimals.
\<close>

theorem size_message:
  assumes "hasValidExtension f"
    and "file_type f = [] \<or> file_type f \<in> set ALLOWED_MIME_TYPES"
    and "MAX_FILE_SIZE < file_size f"
  shows "\<exists>n. validateFile f =
            Some (js ''File size ('' @ digitsOf (n div 100) @ js ''.''
                  @ digitsOf (n mod 100 div 10) @ digitsOf (n mod 10)
                  @ js ''MB) exceeds the maximum limit of 10MB'')
          \<and> 2 * 1048576 * n \<le> 2 * (100 * file_size f) + 1048576
          \<and> 2 * (100 * file_size f) + 1048576 < 2 * 1048576 * (n + 1)"
proof -
  define n where "n = (2 * (100 * file_size f) + 1048576) div (2 * 1048576)"
  have max: "toFixed MAX_FILE_SIZE (1024 * 1024) 0 = js ''10''"
    by (simp add: toFixed_def MAX_FILE_SIZE_def digitsOf_eval js_def)
  have own: "toFixed (file_size f) (1024 * 1024) 2 =
      digitsOf (n div 100) @ js ''.'' @ digitsOf (n mod 100 div 10) @ digitsOf (n mod 10)"
    by (simp add: toFixed_two n_def js_def Let_def)
  have "validateFile f =
      Some (js ''File size ('' @ toFixed (file_size f) (1024 * 1024) 2
            @ js ''MB) exceeds the maximum limit of ''
            @ toFixed MAX_FILE_SIZE (1024 * 1024) 0 @ js ''MB'')"
    using assms by (auto simp: validateFile_def Let_def)
  then have msg: "validateFile f =
      Some (js ''File size ('' @ digitsOf (n div 100) @ js ''.''
            @ digitsOf (n mod 100 div 10) @ digitsOf (n mod 10)
            @ js ''MB) exceeds the maximum limit of 10MB'')"
    unfolding own max by (simp add: js_def)
  have "2 * 1048576 * n \<le> 2 * (100 * file_size f) + 1048576"
    and "2 * (100 * file_size f) + 1048576 < 2 * 1048576 * (n + 1)"
    unfolding n_def by (rule nearest_integer, simp)+
  with msg show ?thesis by blast
qed

theorem size_message_witness:
  "\<exists>n. validateFile \<lparr>file_name = js ''a.pdf'', file_type = js ''application/pdf'',
                  file_size = 11 * 1024 * 1024\<rparr> =
            Some (js ''File size ('' @ digitsOf (n div 100) @ js ''.''
                  @ digitsOf (n mod 100 div 10) @ digitsOf (n mod 10)
                  @ js ''MB) exceeds the maximum limit of 10MB'')
          \<and> 2 * 1048576 * n \<le> 2 * (100 * (11 * 1024 * 1024)) + 1048576
          \<and> 2 * (100 * (11 * 1024 * 1024)) + 1048576 < 2 * 1048576 * (n + 1)"
proof -
  let ?big = "\<lparr>file_name = js ''a.pdf'', file_type = js ''application/pdf'',
                file_size = 11 * 1024 * 1024\<rparr>"
  have "hasValidExtension ?big"
    by (simp add: hasValidExtension_def ALLOWED_EXTENSIONS_def js_def toLowerCase_def
        endsWith_def)
  moreover have "file_type ?big = [] \<or> file_type ?big \<in> set ALLOWED_MIME_TYPES"
    by (simp add: ALLOWED_MIME_TYPES_def js_def)
  moreover have "MAX_FILE_SIZE < file_size ?big"
    by (simp add: MAX_FILE_SIZE_def)
  ultimately show ?thesis
    using size_message [of ?big] by simp
qed

text \<open>
  Claim C5. An empty declared type skips the MIME-type check: the outcome is the one of
  the same file with an allowed type, so with an allowed extension and a size within the
  limit the file is accepted. A non-empty type outside \<open>ALLOWED_MIME_TYPES\<close> is never
  accepted, and once the extension check has passed the message is the one that names the
  expected types and the received one.
\<close>

theorem empty_mime_tolerated:
  "(file_type f = [] \<longrightarrow> validateFile f = validateFile (f\<lparr>file_type := js ''application/pdf''\<rparr>))
   \<and> (hasValidExtension f \<and> file_type f = [] \<and> file_size f \<le> MAX_FILE_SIZE \<longrightarrow>
        validateFile f = None)
   \<and> (file_type f \<noteq> [] \<and> file_type f \<notin> set ALLOWED_MIME_TYPES \<longrightarrow> validateFile f \<noteq> None)
   \<and> (hasValidExtension f \<and> file_type f \<noteq> [] \<and> file_type f \<notin> set ALLOWED_MIME_TYPES \<longrightarrow>
        validateFile f =
          Some (js ''Invalid file type detected. Expected: PDF or DOC/DOCX, Got: '' @ file_type f))"
proof -
  have "js ''application/pdf'' \<in> set ALLOWED_MIME_TYPES"
    by (simp add: ALLOWED_MIME_TYPES_def)
  then show ?thesis
    by (auto simp: validateFile_def Let_def hasValidExtension_def)
qed

theorem empty_mime_tolerated_witness:
  "validateFile \<lparr>file_name = js ''a.pdf'', file_type = js '''', file_size = 100\<rparr> = None
   \<and> validateFile \<lparr>file_name = js ''a.pdf'', file_type = js '''', file_size = 100\<rparr> =
       validateFile \<lparr>file_name = js ''a.pdf'', file_type = js ''application/pdf'',
                     file_size = 100\<rparr>
   \<and> validateFile \<lparr>file_name = js ''a.pdf'', file_type = js ''text/plain'', file_size = 100\<rparr> \<noteq> None
   \<and> validateFile \<lparr>file_name = js ''a.pdf'', file_type = js ''text/plain'', file_size = 100\<rparr> =
       Some (js ''Invalid file type detected. Expected: PDF or DOC/DOCX, Got: text/plain'')"
proof -
  let ?none = "\<lparr>file_name = js ''a.pdf'', file_type = js '''', file_size = 100\<rparr>"
  let ?plain = "\<lparr>file_name = js ''a.pdf'', file_type = js ''text/plain'', file_size = 100\<rparr>"
  have ext: "hasValidExtension ?none" "hasValidExtension ?plain"
    by (simp_all add: hasValidExtension_def ALLOWED_EXTENSIONS_def js_def toLowerCase_def
        endsWith_def)
  have empty: "file_type ?none = []" "file_size ?none \<le> MAX_FILE_SIZE"
    by (simp_all add: js_def MAX_FILE_SIZE_def)
  have plain: "file_type ?plain \<noteq> []" "file_type ?plain \<notin> set ALLOWED_MIME_TYPES"
    by (simp_all add: ALLOWED_MIME_TYPES_def js_def)
  have "validateFile ?none = None"
    using empty_mime_tolerated [of ?none] ext(1) empty by blast
  moreover have "validateFile ?none = validateFile (?none\<lparr>file_type := js ''application/pdf''\<rparr>)"
    using empty_mime_tolerated [of ?none] empty(1) by blast
  moreover have "validateFile ?plain \<noteq> None"
    using empty_mime_tolerated [of ?plain] plain by blast
  moreover have "validateFile ?plain =
      Some (js ''Invalid file type detected. Expected: PDF or DOC/DOCX, Got: '' @ file_type ?plain)"
    using empty_mime_tolerated [of ?plain] ext(2) plain by blast
  ultimately show ?thesis
    by (simp add: js_def)
qed

text \<open>
  Claim C6. The extension check is made on the lower-cased name: two names that differ
  only in the case of their letters pass or fail it together, and \<open>A.PDF\<close> with type
  \<open>application/pdf\<close> and 100 bytes is accepted. A name whose lower-cased form ends with
  none of the allowed extensions is rejected with the message that ends in the name as the
  user gave it.
\<close>

theorem extension_case_insensitive:
  "validateFile \<lparr>file_name = js ''A.PDF'', file_type = js ''application/pdf'',
                  file_size = 100\<rparr> = None
   \<and> (toLowerCase (file_name f) = toLowerCase (file_name g) \<longrightarrow>
        hasValidExtension f = hasValidExtension g)
   \<and> ((\<forall>ext \<in> set ALLOWED_EXTENSIONS. \<not> endsWith (toLowerCase (file_name f)) ext) \<longrightarrow>
        validateFile f =
          Some (js ''Only PDF and DOC/DOCX files are allowed. You selected: '' @ file_name f))"
proof -
  have "validateFile \<lparr>file_name = js ''A.PDF'', file_type = js ''application/pdf'',
                       file_size = 100\<rparr> = None"
    by (simp add: validate_eval)
  moreover have "toLowerCase (file_name f) = toLowerCase (file_name g) \<longrightarrow>
      hasValidExtension f = hasValidExtension g"
    by (simp add: hasValidExtension_def)
  moreover have "(\<forall>ext \<in> set ALLOWED_EXTENSIONS. \<not> endsWith (toLowerCase (file_name f)) ext) \<longrightarrow>
      validateFile f =
        Some (js ''Only PDF and DOC/DOCX files are allowed. You selected: '' @ file_name f)"
    by (simp add: validateFile_def hasValidExtension_iff)
  ultimately show ?thesis by blast
qed

theorem extension_case_insensitive_witness:
  "hasValidExtension \<lparr>file_name = js ''Report.DocX'', file_type = [], file_size = 0\<rparr>
   \<and> validateFile \<lparr>file_name = js ''Notes.TXT'', file_type = js ''text/plain'', file_size = 100\<rparr> =
       Some (js ''Only PDF and DOC/DOCX files are allowed. You selected: Notes.TXT'')"
proof -
  let ?upper = "\<lparr>file_name = js ''Report.DocX'', file_type = [], file_size = 0\<rparr>"
  let ?lower = "\<lparr>file_name = js ''report.docx'', file_type = [], file_size = 0\<rparr>"
  let ?txt = "\<lparr>file_name = js ''Notes.TXT'', file_type = js ''text/plain'', file_size = 100\<rparr>"
  have same: "toLowerCase (file_name ?upper) = toLowerCase (file_name ?lower)"
    by (simp add: toLowerCase_def js_def)
  have lower: "hasValidExtension ?lower"
    by (simp add: hasValidExtension_def ALLOWED_EXTENSIONS_def js_def toLowerCase_def
        endsWith_def)
  have none: "\<forall>ext \<in> set ALLOWED_EXTENSIONS. \<not> endsWith (toLowerCase (file_name ?txt)) ext"
    by (simp add: ALLOWED_EXTENSIONS_def js_def toLowerCase_def endsWith_def)
  have "hasValidExtension ?upper"
    using extension_case_insensitive [of ?upper ?lower] same lower by blast
  moreover have "validateFile ?txt =
      Some (js ''Only PDF and DOC/DOCX files are allowed. You selected: '' @ file_name ?txt)"
    using extension_case_insensitive [of ?txt ?txt] none by blast
  ultimately show ?thesis
    by (simp add: js_def)
qed

text \<open>
  Claim C10. The extension check looks at the end of the name only. A name \<open>pre @ suf\<close>
  whose end \<open>suf\<close> is an allowed extension up to the case of its letters passes the check,
  whatever \<open>pre\<close> is (another extension, or nothing at all); with an empty declared type
  and a size within the limit the file is accepted.
\<close>

theorem extension_suffix_only:
  assumes "ext \<in> set ALLOWED_EXTENSIONS"
    and "list_all2 (\<lambda>c e. c = e \<or> (65 \<le> c \<and> c \<le> 90 \<and> c + 32 = e)) suf ext"
    and "file_name f = pre @ suf"
    and "file_type f = []"
    and "file_size f \<le> MAX_FILE_SIZE"
  shows "hasValidExtension f \<and> validateFile f = None"
proof -
  have "toLowerCase suf = ext"
    using assms(2) extensions_lower_case [OF assms(1)] by (rule toLowerCase_cased)
  then have "endsWith (toLowerCase (file_name f)) ext"
    by (simp add: assms(3) toLowerCase_append endsWith_append)
  with assms(1) have ok: "hasValidExtension f"
    unfolding hasValidExtension_iff by blast
  with assms(4,5) show ?thesis
    by (simp add: validateFile_def)
qed

theorem extension_suffix_only_witness:
  "validateFile \<lparr>file_name = js ''report.exe.pdf'', file_type = [], file_size = 100\<rparr> = None
   \<and> validateFile \<lparr>file_name = js ''.pdf'', file_type = [], file_size = 100\<rparr> = None
   \<and> validateFile \<lparr>file_name = js ''setup.EXE.DocX'', file_type = [],
                    file_size = 10 * 1024 * 1024\<rparr> = None"
proof -
  have exts: "js ''.pdf'' \<in> set ALLOWED_EXTENSIONS" "js ''.docx'' \<in> set ALLOWED_EXTENSIONS"
    by (simp_all add: ALLOWED_EXTENSIONS_def)
  have same: "list_all2 (\<lambda>c e. c = e \<or> (65 \<le> c \<and> c \<le> 90 \<and> c + 32 = e)) (js ''.pdf'') (js ''.pdf'')"
    "list_all2 (\<lambda>c e. c = e \<or> (65 \<le> c \<and> c \<le> 90 \<and> c + 32 = e)) (js ''.DocX'') (js ''.docx'')"
    by (simp_all add: js_def)
  have "validateFile \<lparr>file_name = js ''report.exe.pdf'', file_type = [], file_size = 100\<rparr> = None"
    using extension_suffix_only [OF exts(1) same(1), of _ "js ''report.exe''"]
    by (simp add: js_def MAX_FILE_SIZE_def)
  moreover
  have "validateFile \<lparr>file_name = js ''.pdf'', file_type = [], file_size = 100\<rparr> = None"
    using extension_suffix_only [OF exts(1) same(1), of _ "[]"]
    by (simp add: MAX_FILE_SIZE_def)
  moreover
  have "validateFile \<lparr>file_name = js ''setup.EXE.DocX'', file_type = [],
                       file_size = 10 * 1024 * 1024\<rparr> = None"
    using extension_suffix_only [OF exts(2) same(2), of _ "js ''setup.EXE''"]
    by (simp add: js_def MAX_FILE_SIZE_def)
  ultimately show ?thesis by blast
qed

section \<open>The text formatter\<close>

text \<open>
  Claim C2, evaluated on the three variants. No variant gives \<open># Title\<close> and \<open>## Title\<close>
  the same heading: the two variants with \<open>/^##\s+(.*$)/gm\<close> turn \<open>## Title\<close> into a
  level-2 heading and leave \<open># Title\<close> as it is, the variant with \<open>/^#\s+(.*$)/gm\<close> turns
  \<open># Title\<close> into a level-2 heading and leaves \<open>## Title\<close> as it is. \<open>### Sub\<close> becomes a
  level-3 heading in all three.
\<close>

theorem heading_levels:
  \<open>formatText (js ''# Title'') = js ''# Title''
   \<and> formatText (js ''## Title'') = js ''<h2 style="font-size: 20px; font-weight: 600; color: #2c3e50; margin: 16px 0 8px 0; line-height: 1.3;">Title</h2>''
   \<and> formatText (js ''### Sub'') = js ''<h3 style="font-size: 18px; font-weight: 600; color: #34495e; margin: 12px 0 6px 0; line-height: 1.3;">Sub</h3>''
   \<and> formatText_upload (js ''# Title'') = js ''# Title''
   \<and> formatText_upload (js ''## Title'') = js ''<h2 class="chat-h2">Title</h2>''
   \<and> formatText_upload (js ''### Sub'') = js ''<h3 class="chat-h3">Sub</h3>''
   \<and> formatText_plain (js ''# Title'') = js ''<h2 class="chat-h2">Title</h2>''
   \<and> formatText_plain (js ''## Title'') = js ''## Title''
   \<and> formatText_plain (js ''### Sub'') = js ''<h3 class="chat-h3">Sub</h3>''\<close>
proof -
  have \<open>formatText (js ''# Title'') = js ''# Title''\<close>
    by (simp add: formatText_def format_eval)
  moreover have \<open>formatText (js ''## Title'') = js ''<h2 style="font-size: 20px; font-weight: 600; color: #2c3e50; margin: 16px 0 8px 0; line-height: 1.3;">Title</h2>''\<close>
    by (simp add: formatText_def format_eval)
  moreover have \<open>formatText (js ''### Sub'') = js ''<h3 style="font-size: 18px; font-weight: 600; color: #34495e; margin: 12px 0 6px 0; line-height: 1.3;">Sub</h3>''\<close>
    by (simp add: formatText_def format_eval)
  moreover have \<open>formatText_upload (js ''# Title'') = js ''# Title''\<close>
    by (simp add: formatText_upload_def format_eval)
  moreover have \<open>formatText_upload (js ''## Title'') = js ''<h2 class="chat-h2">Title</h2>''\<close>
    by (simp add: formatText_upload_def format_eval)
  moreover have \<open>formatText_upload (js ''### Sub'') = js ''<h3 class="chat-h3">Sub</h3>''\<close>
    by (simp add: formatText_upload_def format_eval)
  moreover have \<open>formatText_plain (js ''# Title'') = js ''<h2 class="chat-h2">Title</h2>''\<close>
    by (simp add: formatText_plain_def format_eval)
  moreover have \<open>formatText_plain (js ''## Title'') = js ''## Title''\<close>
    by (simp add: formatText_plain_def format_eval)
  moreover have \<open>formatText_plain (js ''### Sub'') = js ''<h3 class="chat-h3">Sub</h3>''\<close>
    by (simp add: formatText_plain_def format_eval)
  ultimately show ?thesis by blast
qed

text \<open>
  Claim C4. \<open>**a**\<close> becomes \<open><strong>a</strong>\<close> and \<open>*a*\<close> becomes \<open><em>a</em>\<close>; the
  output for \<open>**a**\<close> contains no \<open><em>\<close>, because the bold pass has taken the asterisks
  before the italic pass runs: the italic pass alone would turn \<open>**a**\<close> into
  \<open><em></em>a<em></em>\<close>.
\<close>

theorem bold_before_italic:
  "formatText (js ''**a**'') = js ''<strong>a</strong>''
   \<and> formatText (js ''*a*'') = js ''<em>a</em>''
   \<and> \<not> includes_js (formatText (js ''**a**'')) (js ''<em>'')
   \<and> replace regex_italic (js ''<em>$1</em>'') (js ''**a**'') = js ''<em></em>a<em></em>''"
proof -
  have bold: "formatText (js ''**a**'') = js ''<strong>a</strong>''"
    by (simp add: formatText_def format_eval)
  have "\<not> includes_js (js ''<strong>a</strong>'') (js ''<em>'')"
    by (simp add: js_def)
  with bold have "\<not> includes_js (formatText (js ''**a**'')) (js ''<em>'')"
    by simp
  moreover have "formatText (js ''*a*'') = js ''<em>a</em>''"
    by (simp add: formatText_def format_eval)
  moreover have "replace regex_italic (js ''<em>$1</em>'') (js ''**a**'') = js ''<em></em>a<em></em>''"
    by (simp add: format_eval)
  ultimately show ?thesis using bold by blast
qed

text \<open>
  Claim C8. Each pass scans the output of the pass before it. On \<open>***a***\<close> the bold pass
  gives \<open><strong>*a</strong>*\<close>; in this text the italic expression matches from the first
  asterisk to the last one, its group \<open>a</strong>\<close> holding text that the bold pass has put
  there, and the result has interleaved tags.
\<close>

theorem passes_not_independent:
  "replace regex_bold (js ''<strong>$1</strong>'') (js ''***a***'') = js ''<strong>*a</strong>*''
   \<and> regex_italic (Some 62) (js ''*a</strong>*'') = Some ([js ''a</strong>''], 12)
   \<and> replace regex_italic (js ''<em>$1</em>'') (js ''<strong>*a</strong>*'') =
       js ''<strong><em>a</strong></em>''
   \<and> formatText (js ''***a***'') = js ''<strong><em>a</strong></em>''"
proof -
  have "replace regex_bold (js ''<strong>$1</strong>'') (js ''***a***'') = js ''<strong>*a</strong>*''"
    by (simp add: format_eval)
  moreover have "regex_italic (Some 62) (js ''*a</strong>*'') = Some ([js ''a</strong>''], 12)"
    by (simp add: format_eval)
  moreover have "replace regex_italic (js ''<em>$1</em>'') (js ''<strong>*a</strong>*'') =
      js ''<strong><em>a</strong></em>''"
    by (simp add: format_eval)
  moreover have "formatText (js ''***a***'') = js ''<strong><em>a</strong></em>''"
    by (simp add: formatText_def format_eval)
  ultimately show ?thesis by blast
qed



text \<open>
  Claim C7, as stated: unbalanced delimiters pass through literally, a \<open>**\<close> with no closer
  among them. It fails for the unclosed \<open>**\<close>: the bold pass does not match it, but the
  italic expression \<open>/\*(.*?)\*/\<close> matches the two asterisks with an empty group, so
  \<open>**a\<close> becomes \<open><em></em>a\<close>.
\<close>

theorem unclosed_bold_counterexample:
  "formatText (js ''**a'') = js ''<em></em>a''
   \<and> formatText (js ''**a'') \<noteq> js ''**a''
   \<and> includes_js (formatText (js ''**a'')) (js ''<em>'')"
proof -
  have "formatText (js ''**a'') = js ''<em></em>a''"
    by (simp add: formatText_def format_eval)
  moreover have "js ''<em></em>a'' \<noteq> js ''**a''" "includes_js (js ''<em></em>a'') (js ''<em>'')"
    by (simp_all add: js_def)
  ultimately show ?thesis by simp
qed

text \<open>
  Claim C7, amended. \<open>formatText\<close> is a composition of total functions, so it gives an
  output for every input, and the same one each time. An asterisk passes through the bold
  and italic passes unchanged when it is alone on its line: in a text where no asterisk is
  followed by another asterisk before the next line terminator, neither pass changes
  anything, and \<open>formatText\<close> is the composition of the remaining five passes. (Two
  asterisks on one line, adjacent ones included, are an italic span.)
\<close>

theorem lone_asterisks_pass_through:
  assumes "loneAsterisks text"
  shows \<open>replace regex_bold (js ''<strong>$1</strong>'') text = text
    \<and> replace regex_italic (js ''<em>$1</em>'') text = text
    \<and> formatText text =
        (let text = replace regex_numbered (js ''<div style="margin: 8px 0; padding-left: 12px;"><span style="font-weight: 600; color: #007bff; margin-right: 8px;">$1</span>$2</div>'') text;
             text = replace regex_bullet (js ''<div style="margin: 6px 0; padding-left: 12px;">'' @ BULLET @ js '' $1</div>'') text;
             text = replace (regex_heading (js ''###'')) (js ''<h3 style="font-size: 18px; font-weight: 600; color: #34495e; margin: 12px 0 6px 0; line-height: 1.3;">$1</h3>'') text;
             text = replace (regex_heading (js ''##'')) (js ''<h2 style="font-size: 20px; font-weight: 600; color: #2c3e50; margin: 16px 0 8px 0; line-height: 1.3;">$1</h2>'') text;
             text = replace regex_newline (js ''<br>'') text
         in text)\<close>
proof -
  have bold: "replace regex_bold tpl text = text" for tpl
    using assms by (rule replace_bold_lone)
  have italic: "replace regex_italic tpl text = text" for tpl
    using assms by (rule replace_italic_lone)
  have blank: "replace regex_bold tpl [] = []" "replace regex_italic tpl [] = []"
    "replace regex_numbered tpl [] = []" "replace regex_bullet tpl [] = []"
    "replace (regex_heading h) tpl [] = []" "replace regex_newline tpl [] = []" for tpl h
    by (simp_all add: replace_def regex_bold_lone regex_italic_lone regex_numbered_def
        regex_bullet_def regex_heading_def regex_newline_def spacesThenLine_def)
  show ?thesis
  proof (cases "text = []")
    case True
    show ?thesis
      unfolding True by (simp add: formatText_def blank)
  next
    case False
    then show ?thesis
      by (simp add: formatText_def bold italic)
  qed
qed

theorem lone_asterisks_pass_through_witness:
  "loneAsterisks (js ''2 * 3 = 6'')
   \<and> replace regex_bold (js ''<strong>$1</strong>'') (js ''2 * 3 = 6'') = js ''2 * 3 = 6''
   \<and> replace regex_italic (js ''<em>$1</em>'') (js ''2 * 3 = 6'') = js ''2 * 3 = 6''
   \<and> loneAsterisks (js ''a * b'' @ [10] @ js ''c * d'')
   \<and> replace regex_italic (js ''<em>$1</em>'') (js ''a * b'' @ [10] @ js ''c * d'') =
       js ''a * b'' @ [10] @ js ''c * d''"
proof -
  have one: "loneAsterisks (js ''2 * 3 = 6'')"
    by (simp add: js_def restOfLine_def isLineTerminator_def)
  have two: "loneAsterisks (js ''a * b'' @ [10] @ js ''c * d'')"
    by (simp add: js_def restOfLine_def isLineTerminator_def)
  show ?thesis
    using one two lone_asterisks_pass_through [OF one] lone_asterisks_pass_through [OF two]
    by blast
qed

end
